theory Spec2Isabelle
  imports Complex_Main "HOL-Library.Multiset" "HOL-Library.Sublist"
begin

section \<open>Python values used by \<open>backend/main.py\<close>\<close>

text \<open>
  A Python \<open>str\<close> is modelled as a \<open>string\<close> whose characters are the code points
  below 256 (ASCII and Latin-1). On these, the whitespace class used by \<open>str.split()\<close>
  and \<open>str.strip()\<close>, and the case tables used by \<open>str.lower()\<close> and
  \<open>str.isupper()\<close>, are the ones written out below. A Python \<open>int\<close> that is a
  length or a count is a \<open>nat\<close>. A Python \<open>float\<close> is modelled by the exact
  rational number \<open>rat\<close> it stands for: every constant of the scorer is a decimal
  fraction, and no rounding is modelled.
\<close>

datatype error =
    ZeroDivisionError
  | HTTPException nat string

definition and_then :: "error + 'a \<Rightarrow> ('a \<Rightarrow> error + 'b) \<Rightarrow> error + 'b" where
  "and_then m k = (case m of Inl e \<Rightarrow> Inl e | Inr x \<Rightarrow> k x)"

text \<open>Python's \<open>a / b\<close>: raises \<open>ZeroDivisionError\<close> when \<open>b\<close> is zero.\<close>

definition truediv :: "rat \<Rightarrow> rat \<Rightarrow> error + rat" where
  "truediv a b = (if b = 0 then Inl ZeroDivisionError else Inr (a / b))"

subsection \<open>Characters\<close>

definition isspace :: "char \<Rightarrow> bool" where
  "isspace c =
     (c \<in> set [CHR 0x09, CHR 0x0A, CHR 0x0B, CHR 0x0C, CHR 0x0D, CHR 0x1C, CHR 0x1D,
                CHR 0x1E, CHR 0x1F, CHR 0x20, CHR 0x85, CHR 0xA0])"

definition char_isupper :: "char \<Rightarrow> bool" where
  "char_isupper c =
     (let n = (of_char c :: nat)
      in (65 \<le> n \<and> n \<le> 90) \<or> (192 \<le> n \<and> n \<le> 222 \<and> n \<noteq> 215))"

definition char_islower :: "char \<Rightarrow> bool" where
  "char_islower c =
     (let n = (of_char c :: nat)
      in (97 \<le> n \<and> n \<le> 122) \<or> n = 170 \<or> n = 181 \<or> n = 186
         \<or> (223 \<le> n \<and> n \<le> 255 \<and> n \<noteq> 247))"

definition char_lower :: "char \<Rightarrow> char" where
  "char_lower c = (if char_isupper c then char_of (of_char c + (32 :: nat)) else c)"

subsection \<open>String methods\<close>

text \<open>\<open>s.lower()\<close>\<close>

definition str_lower :: "string \<Rightarrow> string" where
  "str_lower s = map char_lower s"

text \<open>
  \<open>s.isupper()\<close>: no character is lowercase and at least one is uppercase.
\<close>

definition str_isupper :: "string \<Rightarrow> bool" where
  "str_isupper s = (list_all (\<lambda>c. \<not> char_islower c) s \<and> list_ex char_isupper s)"

text \<open>\<open>s.strip()\<close>\<close>

definition str_strip :: "string \<Rightarrow> string" where
  "str_strip s = rev (dropWhile isspace (rev (dropWhile isspace s)))"

text \<open>
  \<open>s.split()\<close>: the maximal runs of non-whitespace characters, in order. The first
  argument is the word being read, reversed.
\<close>

fun split_acc :: "string \<Rightarrow> string \<Rightarrow> string list" where
  "split_acc w [] = (if w = [] then [] else [rev w])"
| "split_acc w (c # cs) =
     (if isspace c then (if w = [] then split_acc [] cs else rev w # split_acc [] cs)
      else split_acc (c # w) cs)"

definition str_split :: "string \<Rightarrow> string list" where
  "str_split s = split_acc [] s"

text \<open>\<open>sub in s\<close>\<close>

fun str_contains :: "string \<Rightarrow> string \<Rightarrow> bool" where
  "str_contains sub [] = (sub = [])"
| "str_contains sub (c # cs) = (prefix sub (c # cs) \<or> str_contains sub cs)"

text \<open>
  \<open>s.count(sub)\<close>: the number of non-overlapping occurrences of \<open>sub\<close>, found from
  left to right. The first argument of \<open>count_from\<close> is the number of characters still
  covered by the last occurrence found.
\<close>

fun count_from :: "nat \<Rightarrow> string \<Rightarrow> string \<Rightarrow> nat" where
  "count_from k sub [] = 0"
| "count_from k sub (c # cs) =
     (if 0 < k then count_from (k - 1) sub cs
      else if prefix sub (c # cs) then 1 + count_from (length sub - 1) sub cs
      else count_from 0 sub cs)"

definition str_count :: "string \<Rightarrow> string \<Rightarrow> nat" where
  "str_count s sub = (if sub = [] then length s + 1 else count_from 0 sub s)"

subsection \<open>The two regular expressions\<close>

text \<open>
  \<open>re.split(r'[.!?]+', text)\<close>: the pieces of the text between the maximal runs of
  sentence terminators, empty pieces included. \<open>after\<close> says that the previous
  character was a terminator, so that a run separates only once.
\<close>

definition is_terminator :: "char \<Rightarrow> bool" where
  "is_terminator c = (c = CHR ''.'' \<or> c = CHR ''!'' \<or> c = CHR ''?'')"

fun re_split_acc :: "bool \<Rightarrow> string \<Rightarrow> string \<Rightarrow> string list" where
  "re_split_acc after piece [] = [rev piece]"
| "re_split_acc after piece (c # cs) =
     (if is_terminator c
      then (if after then re_split_acc True [] cs else rev piece # re_split_acc True [] cs)
      else re_split_acc False (c # piece) cs)"

definition re_split_terminators :: "string \<Rightarrow> string list" where
  "re_split_terminators s = re_split_acc False [] s"

text \<open>
  \<open>len(re.findall(r'(.)\1{2,}', text))\<close>: the number of maximal runs of at least three
  equal characters other than the newline, which \<open>.\<close> does not match. A match takes
  the whole run, and the search goes on behind it.
\<close>

function count_runs :: "string \<Rightarrow> nat" where
  "count_runs [] = 0"
| "count_runs (c # cs) =
     (if c \<noteq> CHR 0x0A \<and> 2 \<le> length (takeWhile (\<lambda>d. d = c) cs)
      then 1 + count_runs (dropWhile (\<lambda>d. d = c) cs)
      else count_runs cs)"
  by pat_completeness auto
termination
  by (relation "measure length") (auto intro: le_imp_less_Suc length_dropWhile_le)

subsection \<open>Formatting\<close>

text \<open>
  \<open>format(x, '.df')\<close>: \<open>x\<close> rounded to \<open>d\<close> decimals, halves to the even
  neighbour, written with exactly \<open>d\<close> digits behind the point.
\<close>

definition digit_char :: "nat \<Rightarrow> char" where
  "digit_char d = ''0123456789'' ! (d mod 10)"

function str_of_nat :: "nat \<Rightarrow> string" where
  "str_of_nat n =
     (if n < 10 then [digit_char n] else str_of_nat (n div 10) @ [digit_char n])"
  by pat_completeness auto
termination
  by (relation "measure id") auto

declare str_of_nat.simps [simp del]

fun frac_digits :: "nat \<Rightarrow> nat \<Rightarrow> string" where
  "frac_digits 0 n = []"
| "frac_digits (Suc d) n = frac_digits d (n div 10) @ [digit_char n]"

definition round_half_even :: "rat \<Rightarrow> nat" where
  "round_half_even x =
     (let fl = nat \<lfloor>x\<rfloor>; r = x - of_nat fl
      in if r < 1 / 2 then fl
         else if 1 / 2 < r then fl + 1
         else if even fl then fl else fl + 1)"

definition format_f :: "nat \<Rightarrow> rat \<Rightarrow> string" where
  "format_f d x =
     (let n = round_half_even (\<bar>x\<bar> * 10 ^ d)
      in (if x < 0 then ''-'' else [])
         @ str_of_nat (n div 10 ^ d)
         @ (if d = 0 then [] else ''.'' @ frac_digits d (n mod 10 ^ d)))"


subsection \<open>numpy\<close>

text \<open>
  \<open>np.var(xs)\<close> with the default \<open>ddof = 0\<close>: the mean of the squared deviations
  from the mean. The source calls it on lists of at least two lengths only.
\<close>

definition np_var :: "nat list \<Rightarrow> rat" where
  "np_var xs =
     (let n = of_nat (length xs);
          mean = of_nat (sum_list xs) / n
      in sum_list (map (\<lambda>x. (of_nat x - mean)\<^sup>2) xs) / n)"

section \<open>The feature extractor\<close>

record features =
  word_count :: nat
  char_count :: nat
  avg_word_length :: rat
  sentence_count :: nat
  avg_sentence_length :: rat
  sentence_length_variance :: rat
  lexical_diversity :: rat
  ai_phrase_count :: nat
  exclamation_count :: nat
  question_count :: nat
  ellipsis_count :: nat
  comma_count :: nat
  uppercase_word_ratio :: rat
  contraction_count :: nat
  slang_count :: nat
  repeated_chars :: nat
  formal_transition_count :: nat

definition ai_phrases :: "string list" where
  "ai_phrases =
     [''as an ai'', ''language model'', ''i don't have'', ''i cannot'', ''i can't'',
      ''it's important to note'', ''it is important to note'',
      ''in conclusion'', ''furthermore'', ''moreover'', ''however'',
      ''it's worth noting'', ''it is worth noting'',
      ''i apologize'', ''i'm sorry'', ''my apologies'',
      ''delve into'', ''navigating'', ''landscape of'',
      ''realm of'', ''it's crucial'', ''underscores the importance'']"

definition contractions :: "string list" where
  "contractions =
     [''n't'', CHR 0x27 # ''m'', CHR 0x27 # ''re'', CHR 0x27 # ''ve'',
      CHR 0x27 # ''ll'', CHR 0x27 # ''d'', CHR 0x27 # ''s'']"

definition slang_words :: "string list" where
  "slang_words =
     [''lol'', ''omg'', ''btw'', ''idk'', ''tbh'', ''ngl'', ''fr'', ''rn'',
      ''gonna'', ''wanna'', ''gotta'']"

definition formal_transitions :: "string list" where
  "formal_transitions =
     [''furthermore'', ''moreover'', ''additionally'', ''consequently'',
      ''therefore'', ''thus'', ''hence'', ''accordingly'', ''nevertheless'']"

text \<open>The sentences of a text: the stripped, non-empty pieces between terminators.\<close>

definition sentences_of :: "string \<Rightarrow> string list" where
  "sentences_of text =
     map str_strip (filter (\<lambda>s. str_strip s \<noteq> []) (re_split_terminators text))"

definition analyze_text_features :: "string \<Rightarrow> error + features" where
  "analyze_text_features text =
     (let words = str_split text in
      and_then (truediv (of_nat (sum_list (map length words)))
                        (of_nat (max (length words) 1))) (\<lambda>avg_word_length'.
      let sentences = sentences_of text in
      and_then (truediv (of_nat (length words))
                        (of_nat (max (length sentences) 1))) (\<lambda>avg_sentence_length'.
      let sentence_length_variance' =
            (if 1 < length sentences
             then np_var (map (\<lambda>s. length (str_split s)) sentences)
             else 0);
          words_lower = map str_lower words;
          unique_words = card (set words_lower) in
      and_then (truediv (of_nat unique_words)
                        (of_nat (max (length words) 1))) (\<lambda>lexical_diversity'.
      let text_lower = str_lower text;
          uppercase_words =
            length (filter (\<lambda>word. str_isupper word \<and> 1 < length word) words) in
      and_then (truediv (of_nat uppercase_words)
                        (of_nat (max (length words) 1))) (\<lambda>uppercase_word_ratio'.
      Inr \<lparr> word_count = length words,
            char_count = length text,
            avg_word_length = avg_word_length',
            sentence_count = length sentences,
            avg_sentence_length = avg_sentence_length',
            sentence_length_variance = sentence_length_variance',
            lexical_diversity = lexical_diversity',
            ai_phrase_count =
              length (filter (\<lambda>phrase. str_contains phrase text_lower) ai_phrases),
            exclamation_count = str_count text ''!'',
            question_count = str_count text ''?'',
            ellipsis_count = str_count text ''...'',
            comma_count = str_count text '','',
            uppercase_word_ratio = uppercase_word_ratio',
            contraction_count = sum_list (map (str_count text) contractions),
            slang_count = length (filter (\<lambda>word. word \<in> set slang_words) words_lower),
            repeated_chars = count_runs text,
            formal_transition_count =
              length (filter (\<lambda>word. str_contains word text_lower) formal_transitions)
          \<rparr>)))))"

section \<open>The scorer\<close>

text \<open>
  \<open>calculate_ai_score\<close> is a sequence of fourteen steps on the running \<open>score\<close> and
  the list \<open>confidence_factors\<close>. Each step is one equation of \<open>apply_rule\<close>, in the
  order of the source.
\<close>

datatype rule =
    AiPhrases
  | LexicalDiversity
  | SentenceUniformity
  | SentenceLength
  | FormalTransitions
  | PunctuationVariety
  | EllipsisUsage
  | Contractions
  | Slang
  | RepeatedChars
  | UppercaseEmphasis
  | ShortText
  | PerfectStructure
  | Clamp

type_synonym score_state = "rat \<times> string list"

fun apply_rule :: "rule \<Rightarrow> features \<Rightarrow> score_state \<Rightarrow> error + score_state" where
  "apply_rule AiPhrases f (score, factors) =
     (if 0 < ai_phrase_count f
      then (let ai_phrase_boost = min 0.25 (of_nat (ai_phrase_count f) * 0.15)
            in Inr (score + ai_phrase_boost,
                    factors @ [''AI phrases: +'' @ format_f 2 ai_phrase_boost]))
      else Inr (score, factors))"
| "apply_rule LexicalDiversity f (score, factors) =
     (if 0.80 < lexical_diversity f
      then Inr (score + 0.15, factors @ [''High lexical diversity: +0.15''])
      else if lexical_diversity f < 0.60
      then Inr (score - 0.12, factors @ [''Low lexical diversity: -0.12''])
      else Inr (score, factors))"
| "apply_rule SentenceUniformity f (score, factors) =
     (if sentence_length_variance f < 10 \<and> 2 < sentence_count f
      then Inr (score + 0.12, factors @ [''Uniform sentences: +0.12''])
      else if 30 < sentence_length_variance f
      then Inr (score - 0.10, factors @ [''Varied sentences: -0.10''])
      else Inr (score, factors))"
| "apply_rule SentenceLength f (score, factors) =
     (if 25 < avg_sentence_length f
      then Inr (score + 0.10, factors @ [''Long sentences: +0.10''])
      else if avg_sentence_length f < 15
      then Inr (score - 0.08, factors @ [''Short sentences: -0.08''])
      else Inr (score, factors))"
| "apply_rule FormalTransitions f (score, factors) =
     (if 2 < formal_transition_count f
      then Inr (score + 0.12, factors @ [''Formal transitions: +0.12''])
      else Inr (score, factors))"
| "apply_rule PunctuationVariety f (score, factors) =
     (if 0 < exclamation_count f \<or> 1 < question_count f
      then Inr (score - 0.10, factors @ [''Varied punctuation: -0.10''])
      else Inr (score, factors))"
| "apply_rule EllipsisUsage f (score, factors) =
     (if 0 < ellipsis_count f
      then Inr (score - 0.08, factors @ [''Ellipsis usage: -0.08''])
      else Inr (score, factors))"
| "apply_rule Contractions f (score, factors) =
     and_then (truediv (of_nat (contraction_count f)) (of_nat (max (word_count f) 1)))
       (\<lambda>contraction_ratio.
          if 0.03 < contraction_ratio
          then Inr (score - 0.12, factors @ [''High contractions: -0.12''])
          else if contraction_ratio = 0 \<and> 50 < word_count f
          then Inr (score + 0.08, factors @ [''No contractions: +0.08''])
          else Inr (score, factors))"
| "apply_rule Slang f (score, factors) =
     (if 0 < slang_count f
      then (let slang_boost = min 0.20 (of_nat (slang_count f) * 0.10)
            in Inr (score - slang_boost,
                    factors @ [''Slang words: -'' @ format_f 2 slang_boost]))
      else Inr (score, factors))"
| "apply_rule RepeatedChars f (score, factors) =
     (if 0 < repeated_chars f
      then Inr (score - 0.10, factors @ [''Repeated chars: -0.10''])
      else Inr (score, factors))"
| "apply_rule UppercaseEmphasis f (score, factors) =
     (if 0.05 < uppercase_word_ratio f
      then Inr (score - 0.08, factors @ [''Uppercase emphasis: -0.08''])
      else Inr (score, factors))"
| "apply_rule ShortText f (score, factors) =
     (if word_count f < 30
      then Inr (0.5 + (score - 0.5) * 0.6, factors @ [''Short text: reduced confidence''])
      else Inr (score, factors))"
| "apply_rule PerfectStructure f (score, factors) =
     (if exclamation_count f = 0 \<and> slang_count f = 0 \<and> repeated_chars f = 0
         \<and> 0.75 < lexical_diversity f \<and> 40 < word_count f
      then Inr (score + 0.10, factors @ [''Perfect structure: +0.10''])
      else Inr (score, factors))"
| "apply_rule Clamp f (score, factors) = Inr (max 0.05 (min 0.95 score), factors)"

definition calculate_ai_score :: "string \<Rightarrow> features \<Rightarrow> error + (rat \<times> rat \<times> string list)" where
  "calculate_ai_score text f =
     and_then (apply_rule AiPhrases f (0.5, [])) (\<lambda>s.
     and_then (apply_rule LexicalDiversity f s) (\<lambda>s.
     and_then (apply_rule SentenceUniformity f s) (\<lambda>s.
     and_then (apply_rule SentenceLength f s) (\<lambda>s.
     and_then (apply_rule FormalTransitions f s) (\<lambda>s.
     and_then (apply_rule PunctuationVariety f s) (\<lambda>s.
     and_then (apply_rule EllipsisUsage f s) (\<lambda>s.
     and_then (apply_rule Contractions f s) (\<lambda>s.
     and_then (apply_rule Slang f s) (\<lambda>s.
     and_then (apply_rule RepeatedChars f s) (\<lambda>s.
     and_then (apply_rule UppercaseEmphasis f s) (\<lambda>s.
     and_then (apply_rule ShortText f s) (\<lambda>s.
     and_then (apply_rule PerfectStructure f s) (\<lambda>s.
     and_then (apply_rule Clamp f s) (\<lambda>(score, confidence_factors).
       let ai_probability = score;
           human_probability = 1 - score
       in Inr (ai_probability, human_probability, confidence_factors)))))))))))))))"

text \<open>
  The same steps as a table: a list of rules run from left to right. \<open>rule_order\<close>
  is the order of the source.
\<close>

fun run_rules :: "features \<Rightarrow> rule list \<Rightarrow> score_state \<Rightarrow> error + score_state" where
  "run_rules f [] s = Inr s"
| "run_rules f (r # rs) s = and_then (apply_rule r f s) (run_rules f rs)"

definition additive_rules :: "rule list" where
  "additive_rules =
     [AiPhrases, LexicalDiversity, SentenceUniformity, SentenceLength, FormalTransitions,
      PunctuationVariety, EllipsisUsage, Contractions, Slang, RepeatedChars,
      UppercaseEmphasis]"

definition rule_order :: "rule list" where
  "rule_order = additive_rules @ [ShortText, PerfectStructure, Clamp]"

section \<open>The explainer\<close>




section \<open>The endpoint\<close>

record detection_response =
  is_ai_generated :: bool
  confidence :: rat
  human_probability :: rat
  ai_probability :: rat
  explanation :: string
  response_features :: features


section \<open>Auxiliary definitions\<close>

text \<open>
  What one rule adds to the score and to the list of factors, read off \<open>apply_rule\<close>
  at the score 0 and the empty list.
\<close>

definition rule_delta :: "features \<Rightarrow> rule \<Rightarrow> rat" where
  "rule_delta f r = (case apply_rule r f (0, []) of Inr (score, factors) \<Rightarrow> score | Inl e \<Rightarrow> 0)"

definition rule_entries :: "features \<Rightarrow> rule \<Rightarrow> string list" where
  "rule_entries f r = (case apply_rule r f (0, []) of Inr (score, factors) \<Rightarrow> factors | Inl e \<Rightarrow> [])"


section \<open>Example inputs\<close>









text \<open>A text in which every entry of \<open>ai_phrases\<close> occurs.\<close>

definition all_phrases_text :: string where
  "all_phrases_text =
     ''As an AI language model I don't have opinions. I cannot and I can't. It's important to note, and it is important to note, that in conclusion, furthermore, moreover, however, it's worth noting and it is worth noting: I apologize, I'm sorry, my apologies. We delve into navigating the landscape of the realm of ideas. It's crucial and underscores the importance of it.''"

text \<open>
  The features of a long formal text without AI phrases: three sentences of thirty
  words, varied vocabulary, three formal transitions, no contractions.
\<close>

definition formal_features :: features where
  "formal_features =
     \<lparr> word_count = 90, char_count = 560, avg_word_length = 5.2, sentence_count = 3,
       avg_sentence_length = 30, sentence_length_variance = 2, lexical_diversity = 0.9,
       ai_phrase_count = 0, exclamation_count = 0, question_count = 0, ellipsis_count = 0,
       comma_count = 6, uppercase_word_ratio = 0, contraction_count = 0, slang_count = 0,
       repeated_chars = 0, formal_transition_count = 3 \<rparr>"

section \<open>Basic facts\<close>

lemma and_then_Inr [simp]: "and_then (Inr x) k = k x"
  by (simp add: and_then_def)

lemma and_then_Inl [simp]: "and_then (Inl e) k = Inl e"
  by (simp add: and_then_def)

lemma truediv_guarded [simp]:
  "truediv a (of_nat (max n 1)) = Inr (a / of_nat (max n 1))"
  "truediv a (of_nat (max n (Suc 0))) = Inr (a / of_nat (max n (Suc 0)))"
  by (simp_all add: truediv_def max_def)

lemma apply_rule_total: "\<exists>s'. apply_rule r f s = Inr s'"
  by (cases s; cases r) (simp_all add: Let_def)

lemma run_rules_append:
  "run_rules f (xs @ ys) s = and_then (run_rules f xs s) (run_rules f ys)"
proof (induction xs arbitrary: s)
  case Nil
  show ?case by simp
next
  case (Cons r xs)
  obtain s' where "apply_rule r f s = Inr s'"
    using apply_rule_total by blast
  with Cons show ?case by simp
qed

lemma run_rules_total: "\<exists>s'. run_rules f rs s = Inr s'"
proof (induction rs arbitrary: s)
  case Nil
  show ?case by simp
next
  case (Cons r rs)
  obtain s' where "apply_rule r f s = Inr s'"
    using apply_rule_total by blast
  with Cons show ?case by simp
qed

lemma run_rules_Nil_fun: "run_rules f [] = Inr"
  by (rule ext) simp

lemma run_rules_Cons_fun:
  "run_rules f (r # rs) = (\<lambda>s. and_then (apply_rule r f s) (run_rules f rs))"
  by (rule ext) simp

lemma and_then_assoc:
  "and_then (and_then m k) h = and_then m (\<lambda>x. and_then (k x) h)"
  by (cases m) simp_all

lemma calculate_ai_score_run_rules:
  "calculate_ai_score text f =
     and_then (run_rules f rule_order (0.5, []))
       (\<lambda>(score, confidence_factors). Inr (score, 1 - score, confidence_factors))"
  unfolding calculate_ai_score_def rule_order_def additive_rules_def
  by (simp only: append.simps run_rules_Cons_fun run_rules_Nil_fun and_then_assoc and_then_Inr Let_def)



lemma analyze_text_features_eq:
  "analyze_text_features text =
     Inr \<lparr> word_count = length (str_split text),
           char_count = length text,
           avg_word_length =
             of_nat (sum_list (map length (str_split text)))
               / of_nat (max (length (str_split text)) 1),
           sentence_count = length (sentences_of text),
           avg_sentence_length =
             of_nat (length (str_split text)) / of_nat (max (length (sentences_of text)) 1),
           sentence_length_variance =
             (if 1 < length (sentences_of text)
              then np_var (map (\<lambda>s. length (str_split s)) (sentences_of text))
              else 0),
           lexical_diversity =
             of_nat (card (set (map str_lower (str_split text))))
               / of_nat (max (length (str_split text)) 1),
           ai_phrase_count =
             length (filter (\<lambda>phrase. str_contains phrase (str_lower text)) ai_phrases),
           exclamation_count = str_count text ''!'',
           question_count = str_count text ''?'',
           ellipsis_count = str_count text ''...'',
           comma_count = str_count text '','',
           uppercase_word_ratio =
             of_nat (length (filter (\<lambda>word. str_isupper word \<and> 1 < length word)
                                    (str_split text)))
               / of_nat (max (length (str_split text)) 1),
           contraction_count = sum_list (map (str_count text) contractions),
           slang_count =
             length (filter (\<lambda>word. word \<in> set slang_words)
                            (map str_lower (str_split text))),
           repeated_chars = count_runs text,
           formal_transition_count =
             length (filter (\<lambda>word. str_contains word (str_lower text)) formal_transitions)
         \<rparr>"
  unfolding analyze_text_features_def Let_def
  by (simp only: truediv_guarded and_then_Inr)


subsection \<open>The endpoint\<close>





subsection \<open>The additive rules\<close>

lemma apply_rule_additive_each:
  "apply_rule AiPhrases f (score, factors) =
     Inr (score + rule_delta f AiPhrases, factors @ rule_entries f AiPhrases)"
  "apply_rule LexicalDiversity f (score, factors) =
     Inr (score + rule_delta f LexicalDiversity, factors @ rule_entries f LexicalDiversity)"
  "apply_rule SentenceUniformity f (score, factors) =
     Inr (score + rule_delta f SentenceUniformity, factors @ rule_entries f SentenceUniformity)"
  "apply_rule SentenceLength f (score, factors) =
     Inr (score + rule_delta f SentenceLength, factors @ rule_entries f SentenceLength)"
  "apply_rule FormalTransitions f (score, factors) =
     Inr (score + rule_delta f FormalTransitions, factors @ rule_entries f FormalTransitions)"
  "apply_rule PunctuationVariety f (score, factors) =
     Inr (score + rule_delta f PunctuationVariety, factors @ rule_entries f PunctuationVariety)"
  "apply_rule EllipsisUsage f (score, factors) =
     Inr (score + rule_delta f EllipsisUsage, factors @ rule_entries f EllipsisUsage)"
  "apply_rule Contractions f (score, factors) =
     Inr (score + rule_delta f Contractions, factors @ rule_entries f Contractions)"
  "apply_rule Slang f (score, factors) =
     Inr (score + rule_delta f Slang, factors @ rule_entries f Slang)"
  "apply_rule RepeatedChars f (score, factors) =
     Inr (score + rule_delta f RepeatedChars, factors @ rule_entries f RepeatedChars)"
  "apply_rule UppercaseEmphasis f (score, factors) =
     Inr (score + rule_delta f UppercaseEmphasis, factors @ rule_entries f UppercaseEmphasis)"
  by (simp_all add: rule_delta_def rule_entries_def Let_def)

lemma apply_rule_additive:
  assumes "r \<in> set additive_rules"
  shows "apply_rule r f (score, factors) =
           Inr (score + rule_delta f r, factors @ rule_entries f r)"
proof -
  from assms consider "r = AiPhrases" | "r = LexicalDiversity" | "r = SentenceUniformity"
    | "r = SentenceLength" | "r = FormalTransitions" | "r = PunctuationVariety"
    | "r = EllipsisUsage" | "r = Contractions" | "r = Slang" | "r = RepeatedChars"
    | "r = UppercaseEmphasis"
    unfolding additive_rules_def by auto
  then show ?thesis
    by cases (simp_all only: apply_rule_additive_each)
qed

lemma run_rules_additive:
  assumes "set ps \<subseteq> set additive_rules"
  shows "run_rules f ps (score, factors) =
           Inr (score + sum_list (map (rule_delta f) ps),
                factors @ concat (map (rule_entries f) ps))"
  using assms
proof (induction ps arbitrary: score factors)
  case Nil
  show ?case by simp
next
  case (Cons r ps)
  then have "r \<in> set additive_rules" "set ps \<subseteq> set additive_rules"
    by auto
  then show ?case
    using Cons.IH by (simp add: apply_rule_additive add.assoc)
qed



lemma run_rules_tail:
  "run_rules f [ShortText, PerfectStructure, Clamp] (score, factors) =
     Inr (max 0.05 (min 0.95
            (if word_count f < 30 then 0.5 + (score - 0.5) * 0.6
             else if exclamation_count f = 0 \<and> slang_count f = 0 \<and> repeated_chars f = 0
                     \<and> 0.75 < lexical_diversity f \<and> 40 < word_count f
             then score + 0.10
             else score)),
          factors @
            (if word_count f < 30 then [''Short text: reduced confidence'']
             else if exclamation_count f = 0 \<and> slang_count f = 0 \<and> repeated_chars f = 0
                     \<and> 0.75 < lexical_diversity f \<and> 40 < word_count f
             then [''Perfect structure: +0.10'']
             else []))"
  by simp

lemma calculate_ai_score_split:
  "calculate_ai_score text f =
     and_then (run_rules f additive_rules (0.5, [])) (\<lambda>s.
     and_then (run_rules f [ShortText, PerfectStructure, Clamp] s)
       (\<lambda>(score, confidence_factors). Inr (score, 1 - score, confidence_factors)))"
  unfolding calculate_ai_score_run_rules rule_order_def run_rules_append and_then_assoc ..

lemma apply_rule_ignores_ai_phrase_count:
  assumes "r \<noteq> AiPhrases"
  shows "apply_rule r (f\<lparr>ai_phrase_count := n\<rparr>) s = apply_rule r f s"
  using assms by (cases s; cases r) simp_all

lemma run_rules_ignores_ai_phrase_count:
  assumes "AiPhrases \<notin> set rs"
  shows "run_rules (f\<lparr>ai_phrase_count := n\<rparr>) rs s = run_rules f rs s"
  using assms
proof (induction rs arbitrary: s)
  case Nil
  show ?case by simp
next
  case (Cons r rs)
  then have "run_rules (f\<lparr>ai_phrase_count := n\<rparr>) rs = run_rules f rs"
    by (intro ext) simp
  moreover from Cons.prems have "r \<noteq> AiPhrases"
    by auto
  ultimately show ?case
    by (simp add: apply_rule_ignores_ai_phrase_count)
qed

subsection \<open>The phrase lists and the variance\<close>

lemma distinct_phrase_lists: "distinct ai_phrases" "distinct formal_transitions"
  by (simp_all add: ai_phrases_def formal_transitions_def)

lemma length_phrase_lists: "length ai_phrases = 22" "length formal_transitions = 9"
  by (simp_all add: ai_phrases_def formal_transitions_def)

lemma length_filter_card:
  "distinct xs \<Longrightarrow> length (filter P xs) = card {x \<in> set xs. P x}"
  by (simp add: distinct_card [symmetric] Collect_conj_eq Int_commute)


section \<open>The example inputs evaluated\<close>


































lemma all_phrases_lower:
  "str_lower all_phrases_text =
     ''as an ai language model i don't have opinions. i cannot and i can't. it's important to note, and it is important to note, that in conclusion, furthermore, moreover, however, it's worth noting and it is worth noting: i apologize, i'm sorry, my apologies. we delve into navigating the landscape of the realm of ideas. it's crucial and underscores the importance of it.''"
  unfolding all_phrases_text_def by code_simp

lemma all_phrases_found:
  "length (filter (\<lambda>phrase. str_contains phrase (str_lower all_phrases_text)) ai_phrases) = 22"
  unfolding all_phrases_lower by code_simp

section \<open>The claims\<close>





text \<open>
  C3, as stated, fails: on \<open>formal_features\<close> the score is 0.95 with no AI phrase and
  still 0.95 with one, because the final clamp cuts both.
\<close>

theorem ai_phrase_clamped:
  "map_sum id fst (calculate_ai_score [] (formal_features\<lparr>ai_phrase_count := 0\<rparr>)) = Inr 0.95
   \<and> map_sum id fst (calculate_ai_score [] (formal_features\<lparr>ai_phrase_count := 1\<rparr>)) = Inr 0.95"
  by (simp add: calculate_ai_score_def formal_features_def truediv_def)

text \<open>
  C3, amended. Changing \<open>ai_phrase_count\<close> from 0 to 1, every other feature fixed,
  never lowers the AI probability, and raises it strictly exactly when the clamp leaves
  room: when the probability without the phrase is below 0.95 and the probability with
  it is above 0.05.
\<close>

theorem ai_phrase_monotone:
  "\<exists>a0 h0 t0 a1 h1 t1.
      calculate_ai_score text (f\<lparr>ai_phrase_count := 0\<rparr>) = Inr (a0, h0, t0)
    \<and> calculate_ai_score text (f\<lparr>ai_phrase_count := 1\<rparr>) = Inr (a1, h1, t1)
    \<and> a0 \<le> a1
    \<and> (a0 < a1) = (a0 < 0.95 \<and> 0.05 < a1)"
proof -
  define rest where "rest = tl additive_rules"
  define D where "D = sum_list (map (rule_delta f) rest)"
  define g :: "rat \<Rightarrow> rat" where
    "g x = (if word_count f < 30 then 0.5 + (x - 0.5) * 0.6
            else if exclamation_count f = 0 \<and> slang_count f = 0 \<and> repeated_chars f = 0
                    \<and> 0.75 < lexical_diversity f \<and> 40 < word_count f
            then x + 0.10
            else x)" for x
  have ro: "rule_order = AiPhrases # (rest @ [ShortText, PerfectStructure, Clamp])"
    by (simp add: rest_def rule_order_def additive_rules_def)
  have notin: "AiPhrases \<notin> set (rest @ [ShortText, PerfectStructure, Clamp])"
    by (simp add: rest_def additive_rules_def)
  have sub: "set rest \<subseteq> set additive_rules"
    by (simp add: rest_def additive_rules_def)
  have run_rest: "\<exists>tr'. run_rules f (rest @ [ShortText, PerfectStructure, Clamp]) (x, tr)
                     = Inr (max 0.05 (min 0.95 (g (x + D))), tr')" for x tr
    by (simp only: run_rules_append run_rules_additive [OF sub] and_then_Inr run_rules_tail
        D_def [symmetric] g_def) blast
  have start: "\<exists>tr. apply_rule AiPhrases (f\<lparr>ai_phrase_count := 0\<rparr>) (0.5, []) = Inr (0.5, tr)"
    "\<exists>tr. apply_rule AiPhrases (f\<lparr>ai_phrase_count := 1\<rparr>) (0.5, []) = Inr (0.65, tr)"
    by simp_all
  have c0: "\<exists>t. calculate_ai_score text (f\<lparr>ai_phrase_count := 0\<rparr>)
           = Inr (max 0.05 (min 0.95 (g (0.5 + D))), 1 - max 0.05 (min 0.95 (g (0.5 + D))), t)"
  proof -
    from start(1) obtain tr where
      "apply_rule AiPhrases (f\<lparr>ai_phrase_count := 0\<rparr>) (0.5, []) = Inr (0.5, tr)" by blast
    moreover from run_rest [of "0.5" tr] obtain tr' where
      "run_rules f (rest @ [ShortText, PerfectStructure, Clamp]) (0.5, tr)
         = Inr (max 0.05 (min 0.95 (g (0.5 + D))), tr')" by blast
    ultimately show ?thesis
      unfolding calculate_ai_score_run_rules ro
      by (simp only: run_rules.simps and_then_Inr
          run_rules_ignores_ai_phrase_count [OF notin]) simp
  qed
  have c1: "\<exists>t. calculate_ai_score text (f\<lparr>ai_phrase_count := 1\<rparr>)
           = Inr (max 0.05 (min 0.95 (g (0.65 + D))), 1 - max 0.05 (min 0.95 (g (0.65 + D))), t)"
  proof -
    from start(2) obtain tr where
      "apply_rule AiPhrases (f\<lparr>ai_phrase_count := 1\<rparr>) (0.5, []) = Inr (0.65, tr)" by blast
    moreover from run_rest [of "0.65" tr] obtain tr' where
      "run_rules f (rest @ [ShortText, PerfectStructure, Clamp]) (0.65, tr)
         = Inr (max 0.05 (min 0.95 (g (0.65 + D))), tr')" by blast
    ultimately show ?thesis
      unfolding calculate_ai_score_run_rules ro
      by (simp only: run_rules.simps and_then_Inr
          run_rules_ignores_ai_phrase_count [OF notin]) simp
  qed
  have mono: "g (0.5 + D) < g (0.65 + D)"
    by (simp add: g_def)
  define r0 where "r0 = g (0.5 + D)"
  define r1 where "r1 = g (0.65 + D)"
  have "max 0.05 (min 0.95 r0) \<le> max 0.05 (min 0.95 r1)"
    "(max 0.05 (min 0.95 r0) < max 0.05 (min 0.95 r1))
       = (max 0.05 (min 0.95 r0) < 0.95 \<and> 0.05 < max 0.05 (min 0.95 r1))"
    using mono unfolding r0_def [symmetric] r1_def [symmetric]
    by (auto simp: max_def min_def)
  with c0 c1 show ?thesis
    unfolding r0_def r1_def by blast
qed

text \<open>
  C4, as stated, fails: there is no input on which the perfect-structure bonus fires
  on a dampened score. The dampening changes the state only when \<open>word_count < 30\<close>,
  and the bonus only when \<open>word_count > 40\<close>.
\<close>

theorem dampening_and_bonus_never_both:
  "\<not> (\<exists>f s s' s''.
         apply_rule ShortText f s = Inr s' \<and> s' \<noteq> s
       \<and> apply_rule PerfectStructure f s' = Inr s'' \<and> s'' \<noteq> s')"
proof
  assume "\<exists>f s s' s''.
         apply_rule ShortText f s = Inr s' \<and> s' \<noteq> s
       \<and> apply_rule PerfectStructure f s' = Inr s'' \<and> s'' \<noteq> s'"
  then obtain f s s' s'' where
    a: "apply_rule ShortText f s = Inr s'" "s' \<noteq> s"
    and b: "apply_rule PerfectStructure f s' = Inr s''" "s'' \<noteq> s'"
    by blast
  from a have "word_count f < 30"
    by (cases s) (auto split: if_splits)
  moreover from b have "40 < word_count f"
    by (cases s') (auto split: if_splits)
  ultimately show False by simp
qed

text \<open>
  C4, amended. The perfect-structure bonus is evaluated after the short-text dampening,
  and the two exclude each other: with \<open>raw\<close> the score after the eleven additive
  steps, the final score is the clamp of the dampened \<open>raw\<close> when
  \<open>word_count < 30\<close>, of \<open>raw + 0.10\<close> when the bonus condition holds, and of
  \<open>raw\<close> otherwise.
\<close>

theorem perfect_structure_after_dampening:
  "\<exists>raw factors.
      run_rules f additive_rules (0.5, []) = Inr (raw, factors)
    \<and> calculate_ai_score text f =
        Inr (let score =
                   (if word_count f < 30 then 0.5 + (raw - 0.5) * 0.6
                    else if exclamation_count f = 0 \<and> slang_count f = 0
                            \<and> repeated_chars f = 0 \<and> 0.75 < lexical_diversity f
                            \<and> 40 < word_count f
                    then raw + 0.10
                    else raw);
                 ai = max 0.05 (min 0.95 score)
             in (ai, 1 - ai,
                 factors @
                   (if word_count f < 30 then [''Short text: reduced confidence'']
                    else if exclamation_count f = 0 \<and> slang_count f = 0
                            \<and> repeated_chars f = 0 \<and> 0.75 < lexical_diversity f
                            \<and> 40 < word_count f
                    then [''Perfect structure: +0.10'']
                    else [])))"
proof -
  obtain raw factors where r: "run_rules f additive_rules (0.5, []) = Inr (raw, factors)"
    using run_rules_total by (metis surj_pair)
  show ?thesis
    unfolding calculate_ai_score_split r Let_def
    by (simp only: and_then_Inr run_rules_tail) simp
qed







text \<open>
  C9, as stated, fails: \<open>ai_phrases\<close> has 22 entries, not 21, and on
  \<open>all_phrases_text\<close> all of them occur, so that \<open>ai_phrase_count\<close> is 22.
\<close>

theorem ai_phrase_count_exceeds_21:
  "map_sum id ai_phrase_count (analyze_text_features all_phrases_text) = Inr 22"
  by (simp add: analyze_text_features_eq all_phrases_found)

text \<open>
  C9, amended. \<open>ai_phrase_count\<close> is the number of entries of \<open>ai_phrases\<close> that
  occur in the lowered text, and \<open>formal_transition_count\<close> the number of entries of
  \<open>formal_transitions\<close> that do, each entry counted once however often it occurs;
  so the first is at most 22 and the second at most 9.
\<close>

theorem phrase_counts_bounded:
  "\<exists>f. analyze_text_features text = Inr f
     \<and> ai_phrase_count f
          = card {phrase \<in> set ai_phrases. str_contains phrase (str_lower text)}
     \<and> formal_transition_count f
          = card {word \<in> set formal_transitions. str_contains word (str_lower text)}
     \<and> ai_phrase_count f \<le> 22 \<and> formal_transition_count f \<le> 9"
proof -
  have "length (filter (\<lambda>phrase. str_contains phrase (str_lower text)) ai_phrases) \<le> 22"
    using length_filter_le [of _ ai_phrases] by (simp add: length_phrase_lists)
  moreover
  have "length (filter (\<lambda>word. str_contains word (str_lower text)) formal_transitions) \<le> 9"
    using length_filter_le [of _ formal_transitions] by (simp add: length_phrase_lists)
  ultimately show ?thesis
    by (simp add: analyze_text_features_eq length_filter_card distinct_phrase_lists)
qed



end
